theory Spec2Isabelle
  imports Complex_Main
begin

section \<open>Values\<close>

text \<open>
  A Python float is a finite one, carried as the real number it denotes, or one of the
  three special values. Neither file computes with a float: a price is only validated,
  compared with the widget's minimum, echoed and encoded.
\<close>

datatype special = PosInf | NegInf | NaN

datatype pyfloat = Finite real | Special special

text \<open>
  What Python's JSON decoder produces: \<open>None\<close>, booleans, integers, floats, strings,
  lists and dictionaries (a dictionary as its items in insertion order, keys distinct).
  The decoder yields a special float for \<open>Infinity\<close>, \<open>-Infinity\<close> and \<open>NaN\<close>, and for a
  number beyond the range of a double such as \<open>1e400\<close>.
\<close>

datatype json =
    JNull
  | JBool bool
  | JInt int
  | JFloat real
  | JSpecial special
  | JStr string
  | JArr "json list"
  | JObj "(string \<times> json) list"

text \<open>The exceptions that can end a run of either file.\<close>

datatype exn =
    ConnectionError
  | JSONDecodeError
  | KeyError string
  | TypeError
  | AttributeError
  | NameError string
  | UnboundLocalError string

text \<open>Python's \<open>str\<close> of an integer: the decimal digits, after a minus sign if negative.\<close>

definition digit_char :: "nat \<Rightarrow> char" where
  "digit_char d = char_of (48 + d)"

function digits :: "nat \<Rightarrow> string" where
  "digits n = (if n < 10 then [digit_char n] else digits (n div 10) @ [digit_char (n mod 10)])"
  by pat_completeness auto
termination
  by (relation "measure id") auto

declare digits.simps [simp del]

definition str_int :: "int \<Rightarrow> string" where
  "str_int i = (if i < 0 then CHR ''-'' # digits (nat (- i)) else digits (nat i))"

section \<open>The backend: fastapi\_backend.py\<close>

subsection \<open>The request model and the three handlers\<close>

text \<open>
  \<^verbatim>\<open>class Item(BaseModel): name: str; description: Optional[str] = None; price: float\<close>
\<close>

record Item =
  name :: string
  description :: "string option"
  price :: pyfloat

text \<open>The values a handler works with and returns.\<close>

datatype pyval =
    PNone
  | PStr string
  | PInt int
  | PFloat pyfloat
  | PItem Item
  | PDict "(string \<times> pyval) list"

text \<open>\<^verbatim>\<open>return {"message": "Welcome to the FastAPI app!"}\<close>\<close>

definition read_root :: "(string \<times> pyval) list" where
  "read_root = [(''message'', PStr ''Welcome to the FastAPI app!'')]"

text \<open>\<^verbatim>\<open>return {"message": f"Item {item.name} created successfully!", "item": item}\<close>\<close>

definition create_item :: "Item \<Rightarrow> (string \<times> pyval) list" where
  "create_item item =
     [(''message'', PStr (''Item '' @ name item @ '' created successfully!'')),
      (''item'', PItem item)]"

text \<open>
  \<^verbatim>\<open>return {"item_id": item_id, "square": item_id ** 2}\<close>; Python's integers are
  unbounded, and \<open>q\<close> is a parameter the body never reads.
\<close>

definition read_item :: "int \<Rightarrow> string option \<Rightarrow> (string \<times> pyval) list" where
  "read_item item_id q = [(''item_id'', PInt item_id), (''square'', PInt (item_id ^ 2))]"

subsection \<open>The handlers as written, and what running them does\<close>

text \<open>
  The three definitions above give what each handler returns. To show also what a
  handler leaves alone, its body is kept as syntax and run against the module's global
  variables. The syntax is the fragment of Python the bodies are written in, with names
  resolved as the compiler resolves them (a parameter is a local, any other name a
  global), together with the two assignment statements by which a body could change a
  variable.
\<close>

datatype expr =
    Constant pyval
  | Local string
  | Global string
  | Attribute expr string
  | Pow expr expr
  | JoinedStr "expr list"
  | Dict "(string \<times> expr) list"

datatype stmt =
    Return expr
  | Assign string expr
  | Global_assign string expr

text \<open>\<^verbatim>\<open>def read_root(): return {"message": "Welcome to the FastAPI app!"}\<close>\<close>

definition read_root_body :: "stmt list" where
  "read_root_body =
     [Return (Dict [(''message'', Constant (PStr ''Welcome to the FastAPI app!''))])]"

text \<open>
  \<^verbatim>\<open>def create_item(item): return {"message": f"Item {item.name} created successfully!", "item": item}\<close>
\<close>

definition create_item_body :: "stmt list" where
  "create_item_body =
     [Return (Dict
        [(''message'',
          JoinedStr [Constant (PStr ''Item ''), Attribute (Local ''item'') ''name'',
                     Constant (PStr '' created successfully!'')]),
         (''item'', Local ''item'')])]"

text \<open>\<^verbatim>\<open>def read_item(item_id, q): return {"item_id": item_id, "square": item_id ** 2}\<close>\<close>

definition read_item_body :: "stmt list" where
  "read_item_body =
     [Return (Dict
        [(''item_id'', Local ''item_id''),
         (''square'', Pow (Local ''item_id'') (Constant (PInt 2)))])]"

text \<open>
  Evaluation either gives a value, or raises, or leaves the fragment modelled here: a
  method or a computed attribute, arithmetic on floats, the formatting of a float, a
  model or a dictionary. Nothing is said of Python there.
\<close>

datatype error = Raised exn | Unmodelled

type_synonym env = "string \<rightharpoonup> pyval"

definition getattr :: "pyval \<Rightarrow> string \<Rightarrow> error + pyval" where
  "getattr v a =
     (case v of
        PItem it \<Rightarrow>
          if a = ''name'' then Inr (PStr (name it))
          else if a = ''description'' then
            Inr (case description it of None \<Rightarrow> PNone | Some d \<Rightarrow> PStr d)
          else if a = ''price'' then Inr (PFloat (price it))
          else Inl Unmodelled
      | _ \<Rightarrow> Inl Unmodelled)"

definition py_pow :: "pyval \<Rightarrow> pyval \<Rightarrow> error + pyval" where
  "py_pow x y =
     (case (x, y) of
        (PInt a, PInt b) \<Rightarrow> if 0 \<le> b then Inr (PInt (a ^ nat b)) else Inl Unmodelled
      | (PFloat _, _) \<Rightarrow> Inl Unmodelled
      | (_, PFloat _) \<Rightarrow> Inl Unmodelled
      | _ \<Rightarrow> Inl (Raised TypeError))"

definition format_value :: "pyval \<Rightarrow> error + string" where
  "format_value v =
     (case v of
        PStr s \<Rightarrow> Inr s
      | PInt i \<Rightarrow> Inr (str_int i)
      | PNone \<Rightarrow> Inr ''None''
      | _ \<Rightarrow> Inl Unmodelled)"

text \<open>The parts of an f-string, formatted and joined; the first failure wins.\<close>

fun joined :: "(error + pyval) list \<Rightarrow> error + string" where
  "joined [] = Inr []"
| "joined (r # rs) =
     (case r of
        Inl e \<Rightarrow> Inl e
      | Inr v \<Rightarrow>
          (case format_value v of
             Inl e \<Rightarrow> Inl e
           | Inr s \<Rightarrow> (case joined rs of Inl e \<Rightarrow> Inl e | Inr t \<Rightarrow> Inr (s @ t))))"

text \<open>The items of a dictionary display; the first failure wins.\<close>

fun display :: "(string \<times> (error + pyval)) list \<Rightarrow> error + (string \<times> pyval) list" where
  "display [] = Inr []"
| "display ((k, r) # rest) =
     (case r of
        Inl e \<Rightarrow> Inl e
      | Inr v \<Rightarrow> (case display rest of Inl e \<Rightarrow> Inl e | Inr kvs \<Rightarrow> Inr ((k, v) # kvs)))"

primrec eval :: "env \<Rightarrow> env \<Rightarrow> expr \<Rightarrow> error + pyval" where
  "eval g l (Constant v) = Inr v"
| "eval g l (Local x) =
     (case l x of None \<Rightarrow> Inl (Raised (UnboundLocalError x)) | Some v \<Rightarrow> Inr v)"
| "eval g l (Global x) =
     (case g x of None \<Rightarrow> Inl (Raised (NameError x)) | Some v \<Rightarrow> Inr v)"
| "eval g l (Attribute e a) =
     (case eval g l e of Inl err \<Rightarrow> Inl err | Inr v \<Rightarrow> getattr v a)"
| "eval g l (Pow a b) =
     (case eval g l a of
        Inl err \<Rightarrow> Inl err
      | Inr x \<Rightarrow> (case eval g l b of Inl err \<Rightarrow> Inl err | Inr y \<Rightarrow> py_pow x y))"
| "eval g l (JoinedStr es) =
     (case joined (map (eval g l) es) of Inl err \<Rightarrow> Inl err | Inr s \<Rightarrow> Inr (PStr s))"
| "eval g l (Dict kvs) =
     (case display (map (map_prod id (eval g l)) kvs) of
        Inl err \<Rightarrow> Inl err
      | Inr d \<Rightarrow> Inr (PDict d))"

text \<open>
  Running a body in the globals \<open>g\<close> with the locals \<open>l\<close>: what it returns or how it fails,
  and the globals it leaves. A body that ends without a \<open>return\<close> returns \<open>None\<close>.
\<close>

fun exec :: "stmt list \<Rightarrow> env \<Rightarrow> env \<Rightarrow> (error + pyval) \<times> env" where
  "exec [] g l = (Inr PNone, g)"
| "exec (Return e # _) g l = (eval g l e, g)"
| "exec (Assign x e # rest) g l =
     (case eval g l e of Inl err \<Rightarrow> (Inl err, g) | Inr v \<Rightarrow> exec rest g (l(x \<mapsto> v)))"
| "exec (Global_assign x e # rest) g l =
     (case eval g l e of Inl err \<Rightarrow> (Inl err, g) | Inr v \<Rightarrow> exec rest (g(x \<mapsto> v)) l)"

definition assigns_global :: "stmt \<Rightarrow> bool" where
  "assigns_global s = (case s of Global_assign _ _ \<Rightarrow> True | _ \<Rightarrow> False)"

subsection \<open>Validation at the handler boundary\<close>

text \<open>
  The type annotations are enforced by the framework before a handler runs. How a single
  transport value is coerced to \<open>str\<close>, \<open>float\<close> or \<open>int\<close> is the validation library's
  business and differs between its releases, so the three coercions are parameters; what
  the declarations of the source fix is which field is required, which has a default, and
  which coercion applies to it.
\<close>

record framework =
  int_validator :: "string \<Rightarrow> int option"
  str_validator :: "json \<Rightarrow> string option"
  float_validator :: "json \<Rightarrow> pyfloat option"

datatype verror = Missing string | Mistyped string

text \<open>A field declared without a default: \<open>name: str\<close>, \<open>price: float\<close>.\<close>

definition required_field ::
  "(json \<Rightarrow> 'a option) \<Rightarrow> (string \<rightharpoonup> json) \<Rightarrow> string \<Rightarrow> verror + 'a" where
  "required_field v body k =
     (case body k of
        None \<Rightarrow> Inl (Missing k)
      | Some j \<Rightarrow> (case v j of None \<Rightarrow> Inl (Mistyped k) | Some x \<Rightarrow> Inr x))"

text \<open>
  A field declared \<open>Optional[T] = None\<close>: an absent key takes the default, an explicit
  null is accepted as \<open>None\<close>, anything else goes through the coercion of \<open>T\<close>.
\<close>

definition optional_field ::
  "(json \<Rightarrow> 'a option) \<Rightarrow> (string \<rightharpoonup> json) \<Rightarrow> string \<Rightarrow> verror + 'a option" where
  "optional_field v body k =
     (case body k of
        None \<Rightarrow> Inr None
      | Some j \<Rightarrow>
          if j = JNull then Inr None
          else (case v j of None \<Rightarrow> Inl (Mistyped k) | Some x \<Rightarrow> Inr (Some x)))"

definition errors :: "verror + 'a \<Rightarrow> verror list" where
  "errors r = (case r of Inl e \<Rightarrow> [e] | Inr _ \<Rightarrow> [])"

text \<open>
  Validation of the fields of a request body, read off the three field declarations of
  \<open>Item\<close>: keys the class does not declare are ignored, and every failing field is
  reported.
\<close>

definition validate_Item ::
  "(json \<Rightarrow> string option) \<Rightarrow> (json \<Rightarrow> pyfloat option) \<Rightarrow> (string \<rightharpoonup> json)
     \<Rightarrow> verror list + Item" where
  "validate_Item sv fv body =
     (let rn = required_field sv body ''name'';
          rd = optional_field sv body ''description'';
          rp = required_field fv body ''price''
      in case (rn, rd, rp) of
           (Inr n, Inr d, Inr p) \<Rightarrow> Inr \<lparr>name = n, description = d, price = p\<rparr>
         | _ \<Rightarrow> Inl (errors rn @ errors rd @ errors rp))"

text \<open>
  The fields a decoded body has: those of a dictionary, where the decoder has kept the
  last of several pairs with one key; anything else has none.
\<close>

definition body_fields :: "json \<Rightarrow> (string \<rightharpoonup> json)" where
  "body_fields j = (case j of JObj kvs \<Rightarrow> map_of (rev kvs) | _ \<Rightarrow> Map.empty)"

text \<open>A body that is no dictionary is refused as a whole.\<close>

definition validate_body ::
  "(json \<Rightarrow> string option) \<Rightarrow> (json \<Rightarrow> pyfloat option) \<Rightarrow> json \<Rightarrow> verror list + Item" where
  "validate_body sv fv j =
     (case j of
        JObj kvs \<Rightarrow> validate_Item sv fv (body_fields j)
      | _ \<Rightarrow> Inl [Mistyped ''body''])"

subsection \<open>Replies and their encoding\<close>

datatype reply_body = Payload json | Detail "verror list" | Failure

record reply =
  status :: int
  content :: reply_body

text \<open>
  The framework first turns what the handler returned into plain data, a model field by
  field, and then writes it as JSON.
\<close>

primrec encode :: "pyval \<Rightarrow> json" where
  "encode PNone = JNull"
| "encode (PStr s) = JStr s"
| "encode (PInt i) = JInt i"
| "encode (PFloat x) = (case x of Finite r \<Rightarrow> JFloat r | Special s \<Rightarrow> JSpecial s)"
| "encode (PItem it) =
     JObj [(''name'', JStr (name it)),
           (''description'', (case description it of None \<Rightarrow> JNull | Some d \<Rightarrow> JStr d)),
           (''price'', (case price it of Finite r \<Rightarrow> JFloat r | Special s \<Rightarrow> JSpecial s))]"
| "encode (PDict kvs) = JObj (map (map_prod id encode) kvs)"

text \<open>
  Writing fails, with a \<open>ValueError\<close>, on a special float (the writer is called with
  \<open>allow_nan=False\<close>) and on an integer of more than 4300 decimal digits (the
  interpreter's default limit on the conversion of an integer to text).
\<close>

definition int_max_str_digits :: nat where
  "int_max_str_digits = 4300"

primrec renders :: "json \<Rightarrow> bool" where
  "renders JNull = True"
| "renders (JBool b) = True"
| "renders (JInt i) = (length (digits (nat \<bar>i\<bar>)) \<le> int_max_str_digits)"
| "renders (JFloat r) = True"
| "renders (JSpecial s) = False"
| "renders (JStr s) = True"
| "renders (JArr xs) = list_all (\<lambda>b. b) (map renders xs)"
| "renders (JObj kvs) = list_all (\<lambda>b. b) (map snd (map (map_prod id renders) kvs))"

definition unprocessable :: "verror list \<Rightarrow> reply" where
  "unprocessable errs = \<lparr>status = 422, content = Detail errs\<rparr>"

definition server_error :: reply where
  "server_error = \<lparr>status = 500, content = Failure\<rparr>"

definition respond :: "pyval \<Rightarrow> reply" where
  "respond v =
     (if renders (encode v) then \<lparr>status = 200, content = Payload (encode v)\<rparr>
      else server_error)"

subsection \<open>Routes\<close>

text \<open>
  The three registered routes. The root route declares no parameter, so whatever query
  string a request carries is dropped; the creation route receives the decoded body; the
  lookup route receives its path segment as text, and the optional \<open>q\<close>.
\<close>

datatype request =
    GET_root "(string \<times> string) list"
  | POST_items json
  | GET_items_id string "string option"

text \<open>
  The reply to a handler's run: its value encoded, or a server error if the run failed.
  The three bodies never leave the modelled fragment (\<open>exec_read_root\<close>,
  \<open>exec_create_item\<close> and \<open>exec_read_item\<close> below), so that case is never taken here.
\<close>

definition finish :: "(error + pyval) \<times> env \<Rightarrow> env \<times> reply" where
  "finish r = (case fst r of Inl _ \<Rightarrow> (snd r, server_error) | Inr v \<Rightarrow> (snd r, respond v))"

text \<open>
  One request against a process whose global variables are \<open>st\<close>: the arguments are
  validated, the handler's body is run with them as its locals, and what it returns is
  encoded.
\<close>

definition serve :: "framework \<Rightarrow> env \<Rightarrow> request \<Rightarrow> env \<times> reply" where
  "serve fw st req =
     (case req of
        GET_root _ \<Rightarrow> finish (exec read_root_body st Map.empty)
      | POST_items body \<Rightarrow>
          (case validate_body (str_validator fw) (float_validator fw) body of
             Inl errs \<Rightarrow> (st, unprocessable errs)
           | Inr item \<Rightarrow> finish (exec create_item_body st [''item'' \<mapsto> PItem item]))
      | GET_items_id segment q \<Rightarrow>
          (case int_validator fw segment of
             None \<Rightarrow> (st, unprocessable [Mistyped ''item_id''])
           | Some item_id \<Rightarrow>
               finish (exec read_item_body st
                 [''item_id'' \<mapsto> PInt item_id,
                  ''q'' \<mapsto> (case q of None \<Rightarrow> PNone | Some s \<Rightarrow> PStr s)])))"

text \<open>A sequence of requests, each served in the state the previous one left.\<close>

fun serve_all :: "framework \<Rightarrow> env \<Rightarrow> request list \<Rightarrow> env \<times> reply list" where
  "serve_all fw st [] = (st, [])"
| "serve_all fw st (r # rs) =
     (case serve fw st r of
        (st', rep) \<Rightarrow> (case serve_all fw st' rs of (st'', reps) \<Rightarrow> (st'', rep # reps)))"

subsection \<open>Coercions, from the spec\<close>

text \<open>
  Modelled from the spec: the validation library that coerces single values is not part
  of the sources. The spec says "name: text; description: optional text": text is read
  as a JSON string.
\<close>

fun json_str :: "json \<Rightarrow> string option" where
  "json_str (JStr s) = Some s"
| "json_str _ = None"

text \<open>
  Modelled from the spec: the validation library's coercion to \<open>float\<close> is not part of
  the sources. The spec says "price: numeric" and that creation fails when the price is
  "non-numeric": numeric is read as a JSON number, which the decoder gives as an integer
  or a float.
\<close>

fun json_float :: "json \<Rightarrow> pyfloat option" where
  "json_float (JFloat x) = Some (Finite x)"
| "json_float (JInt i) = Some (Finite (of_int i))"
| "json_float (JSpecial s) = Some (Special s)"
| "json_float _ = None"

text \<open>
  Modelled from the spec: the validation library's coercion of a path segment to \<open>int\<close>
  is not part of the sources. The spec says the id is "coerced from the transport
  representation" and that the request "fails with a validation error if not
  integer-parseable (e.g. "abc")": integer-parseable is read as being a decimal numeral,
  with or without a sign.
\<close>

definition digit_of :: "char \<Rightarrow> nat option" where
  "digit_of c =
     (let n = of_char c :: nat in if 48 \<le> n \<and> n \<le> 57 then Some (n - 48) else None)"

fun digits_value :: "nat \<Rightarrow> string \<Rightarrow> nat option" where
  "digits_value acc [] = Some acc"
| "digits_value acc (c # cs) =
     (case digit_of c of None \<Rightarrow> None | Some d \<Rightarrow> digits_value (10 * acc + d) cs)"

definition decimal_int :: "string \<Rightarrow> int option" where
  "decimal_int s =
     (case s of
        [] \<Rightarrow> None
      | c # cs \<Rightarrow>
          if c = CHR ''-'' then
            (if cs = [] then None else map_option (\<lambda>n. - int n) (digits_value 0 cs))
          else if c = CHR ''+'' then
            (if cs = [] then None else map_option int (digits_value 0 cs))
          else map_option int (digits_value 0 s))"

definition plain :: framework where
  "plain = \<lparr>int_validator = decimal_int, str_validator = json_str,
            float_validator = json_float\<rparr>"

section \<open>The client: streamlit\_frontend.py\<close>

text \<open>
  The script runs top to bottom on every interaction. Its inputs are what the user has
  typed and which button was pressed; its result is what it puts on the page, and the
  exception that ended the run, if one did.
\<close>

datatype element = St_title string | St_success json | St_error string | St_write string

record response =
  status_code :: int
  json_result :: "exn + json"

record network =
  http_post :: "string \<Rightarrow> (string \<times> json) list \<Rightarrow> exn + response"
  http_get :: "string \<Rightarrow> exn + response"

record inputs =
  typed_name :: string
  typed_description :: string
  typed_price :: real
  create_pressed :: bool
  typed_id :: int
  lookup_pressed :: bool

text \<open>
  Modelled from the spec: the widget library is not part of the sources. The spec says of
  the price that "the presentation layer clamps user input to non-negative"; the bound is
  the \<open>min_value\<close> argument the script passes, \<open>0.0\<close> for the price and \<open>1\<close> for the id.
\<close>

definition number_input :: "'a::linorder \<Rightarrow> 'a \<Rightarrow> 'a" where
  "number_input min_value entered = max min_value entered"

text \<open>\<^verbatim>\<open>item_data = {"name": name, "description": description, "price": price}\<close>\<close>

definition item_data :: "string \<Rightarrow> string \<Rightarrow> real \<Rightarrow> (string \<times> json) list" where
  "item_data nm ds pr = [(''name'', JStr nm), (''description'', JStr ds), (''price'', JFloat pr)]"

text \<open>The payload of a submission, from the three widgets above the button.\<close>

definition submitted :: "inputs \<Rightarrow> (string \<times> json) list" where
  "submitted inp =
     item_data (typed_name inp) (typed_description inp) (number_input 0 (typed_price inp))"

text \<open>\<open>d[k]\<close> and \<open>d.get(k, default)\<close> on a decoded value.\<close>

definition subscript :: "json \<Rightarrow> string \<Rightarrow> exn + json" where
  "subscript j k =
     (case j of
        JObj kvs \<Rightarrow> (case map_of kvs k of None \<Rightarrow> Inl (KeyError k) | Some v \<Rightarrow> Inr v)
      | _ \<Rightarrow> Inl TypeError)"

definition dict_get :: "json \<Rightarrow> string \<Rightarrow> json \<Rightarrow> exn + json" where
  "dict_get j k dflt =
     (case j of
        JObj kvs \<Rightarrow> (case map_of kvs k of None \<Rightarrow> Inr dflt | Some v \<Rightarrow> Inr v)
      | _ \<Rightarrow> Inl AttributeError)"

text \<open>
  Lines 25 to 28: what the page shows for the response to the creation request.
\<close>

definition create_shown :: "response \<Rightarrow> element list \<times> exn option" where
  "create_shown response =
     (if status_code response = 200 then
        (case json_result response of
           Inl e \<Rightarrow> ([], Some e)
         | Inr j \<Rightarrow>
             (case subscript j ''message'' of
                Inl e \<Rightarrow> ([], Some e)
              | Inr m \<Rightarrow> ([St_success m], None)))
      else ([St_error ''Failed to create the item.''], None))"

text \<open>
  Lines 36 to 41: what the page shows for the response to the lookup request. \<open>fmt\<close> is
  Python's formatting of a value inside an f-string.
\<close>

definition lookup_shown :: "(json \<Rightarrow> string) \<Rightarrow> response \<Rightarrow> element list \<times> exn option" where
  "lookup_shown fmt response =
     (if status_code response = 200 then
        (case json_result response of
           Inl e \<Rightarrow> ([], Some e)
         | Inr item \<Rightarrow>
             (case subscript item ''item_id'' of
                Inl e \<Rightarrow> ([], Some e)
              | Inr i \<Rightarrow>
                  (case dict_get item ''square'' (JStr ''No query provided'') of
                     Inl e \<Rightarrow> ([St_write (''Item ID: '' @ fmt i)], Some e)
                   | Inr sq \<Rightarrow>
                       ([St_write (''Item ID: '' @ fmt i), St_write (''Query: '' @ fmt sq)],
                        None))))
      else ([St_error ''Failed to fetch item details.''], None))"

text \<open>The whole script: the title, the creation block, then the lookup block.\<close>

definition script :: "network \<Rightarrow> (json \<Rightarrow> string) \<Rightarrow> inputs \<Rightarrow> element list \<times> exn option" where
  "script net fmt inp =
     (let shown0 = [St_title ''FastAPI + Streamlit Example''];
          created =
            (if create_pressed inp then
               (case http_post net ''http://127.0.0.1:8000/items/'' (submitted inp) of
                  Inl e \<Rightarrow> ([], Some e)
                | Inr response \<Rightarrow> create_shown response)
             else ([], None))
      in case snd created of
           Some e \<Rightarrow> (shown0 @ fst created, Some e)
         | None \<Rightarrow>
             (let item_id = number_input 1 (typed_id inp);
                  fetched =
                    (if lookup_pressed inp then
                       (case http_get net (''http://127.0.0.1:8000/items/'' @ str_int item_id) of
                          Inl e \<Rightarrow> ([], Some e)
                        | Inr response \<Rightarrow> lookup_shown fmt response)
                     else ([], None))
              in (shown0 @ fst created @ fst fetched, snd fetched)))"

text \<open>A network that answers every request with the same response.\<close>

definition canned :: "response \<Rightarrow> network" where
  "canned r = \<lparr>http_post = (\<lambda>url payload. Inr r), http_get = (\<lambda>url. Inr r)\<rparr>"

text \<open>The success class of HTTP status codes.\<close>

definition success_status :: "int \<Rightarrow> bool" where
  "success_status s \<longleftrightarrow> 200 \<le> s \<and> s \<le> 299"

section \<open>Properties of the backend\<close>

subsection \<open>What running a handler does\<close>

text \<open>
  Each body, run with its parameters bound, returns what the handler's definition says
  and leaves the globals as they were.
\<close>

lemma exec_read_root: "exec read_root_body g l = (Inr (PDict read_root), g)"
  by (simp add: read_root_body_def read_root_def)

lemma exec_create_item:
  "exec create_item_body g [''item'' \<mapsto> PItem item] = (Inr (PDict (create_item item)), g)"
  by (simp add: create_item_body_def create_item_def getattr_def format_value_def)

lemma exec_read_item:
  "exec read_item_body g [''item_id'' \<mapsto> PInt n, ''q'' \<mapsto> v] = (Inr (PDict (read_item n q)), g)"
  by (simp add: read_item_body_def read_item_def py_pow_def)

text \<open>A body without an assignment to a global leaves the globals as they were.\<close>

lemma exec_frame:
  "list_all (\<lambda>s. \<not> assigns_global s) body \<Longrightarrow> snd (exec body g l) = g"
proof (induction body g l rule: exec.induct)
  case (1 g l)
  show ?case by simp
next
  case (2 e rest g l)
  show ?case by simp
next
  case (3 x e rest g l)
  show ?case
  proof (cases "eval g l e")
    case (Inl err)
    then show ?thesis by simp
  next
    case (Inr v)
    from "3.prems" have "list_all (\<lambda>s. \<not> assigns_global s) rest" by simp
    from "3.IH" [OF Inr this] have "snd (exec rest g (l(x \<mapsto> v))) = g" .
    with Inr show ?thesis by simp
  qed
next
  case (4 x e rest g l)
  then show ?case
    by (simp add: assigns_global_def)
qed

subsection \<open>Numerals\<close>

text \<open>The decimal form of a number reads back as that number, and its length bounds it.\<close>

lemma digit_of_digit_char: "d < 10 \<Longrightarrow> digit_of (digit_char d) = Some d"
  by (simp add: digit_of_def digit_char_def)

lemma digits_value_append:
  "digits_value acc (xs @ ys) =
     (case digits_value acc xs of None \<Rightarrow> None | Some a \<Rightarrow> digits_value a ys)"
  by (induction xs arbitrary: acc) (simp_all split: option.splits)

lemma digits_value_digits: "digits_value 0 (digits n) = Some n"
proof (induction n rule: digits.induct)
  case (1 n)
  show ?case
  proof (cases "n < 10")
    case True
    then show ?thesis
      by (subst digits.simps) (simp add: digit_of_digit_char)
  next
    case False
    have "n mod 10 < 10" by simp
    with False "1.IH" show ?thesis
      by (subst digits.simps) (simp add: digits_value_append digit_of_digit_char)
  qed
qed

lemma digits_not_Nil: "digits n \<noteq> []"
  by (subst digits.simps) simp

lemma digits_all_digits: "c \<in> set (digits n) \<Longrightarrow> digit_of c \<noteq> None"
proof (induction n rule: digits.induct)
  case (1 n)
  show ?case
  proof (cases "n < 10")
    case True
    with "1.prems" show ?thesis
      by (subst (asm) digits.simps) (simp add: digit_of_digit_char)
  next
    case False
    have "n mod 10 < 10" by simp
    then have "digit_of (digit_char (n mod 10)) \<noteq> None"
      by (simp add: digit_of_digit_char)
    with False "1.IH" "1.prems" show ?thesis
      by (subst (asm) digits.simps) auto
  qed
qed

lemma digits_hd: "digits n = c # cs \<Longrightarrow> c \<noteq> CHR ''-'' \<and> c \<noteq> CHR ''+''"
proof -
  assume eq: "digits n = c # cs"
  then have "c \<in> set (digits n)" by simp
  then have "digit_of c \<noteq> None" by (rule digits_all_digits)
  then show ?thesis by (auto simp add: digit_of_def)
qed

lemma decimal_int_str_int: "decimal_int (str_int m) = Some m"
proof (cases "m < 0")
  case True
  then show ?thesis
    by (simp add: str_int_def decimal_int_def digits_not_Nil digits_value_digits)
next
  case False
  obtain c cs where eq: "digits (nat m) = c # cs"
    using digits_not_Nil [of "nat m"] by (cases "digits (nat m)") auto
  from digits_hd [OF eq] have "c \<noteq> CHR ''-''" "c \<noteq> CHR ''+''" by simp_all
  moreover have "digits_value 0 (c # cs) = Some (nat m)"
    using digits_value_digits [of "nat m"] eq by simp
  ultimately show ?thesis
    using False eq by (simp add: str_int_def decimal_int_def)
qed

lemma length_digits_le: "0 < k \<Longrightarrow> length (digits n) \<le> k \<longleftrightarrow> n < 10 ^ k"
proof (induction n arbitrary: k rule: digits.induct)
  case (1 n)
  show ?case
  proof (cases "n < 10")
    case True
    have "(10::nat) ^ 1 \<le> 10 ^ k"
      using "1.prems" by (intro power_increasing) simp_all
    with True have "n < 10 ^ k" by simp
    moreover have "length (digits n) = 1"
      using True by (subst digits.simps) simp
    ultimately show ?thesis using "1.prems" by simp
  next
    case False
    show ?thesis
    proof (cases "k = 1")
      case True
      with False show ?thesis
        by (subst digits.simps) (simp add: digits_not_Nil)
    next
      case False2: False
      with "1.prems" obtain j where k: "k = Suc j" and j: "0 < j"
        by (cases k) auto
      have "length (digits (n div 10)) \<le> j \<longleftrightarrow> n div 10 < 10 ^ j"
        using "1.IH" [OF False j] .
      moreover have "n div 10 < 10 ^ j \<longleftrightarrow> n < 10 ^ Suc j"
        by (simp add: less_mult_imp_div_less div_less_iff_less_mult mult.commute)
      ultimately show ?thesis
        using False k by (subst digits.simps) simp
    qed
  qed
qed

subsection \<open>Replies\<close>

lemma renders_int_iff: "renders (JInt i) \<longleftrightarrow> \<bar>i\<bar> < 10 ^ int_max_str_digits"
proof -
  have pos: "0 < int_max_str_digits" by (simp add: int_max_str_digits_def)
  have "renders (JInt i) \<longleftrightarrow> nat \<bar>i\<bar> < 10 ^ int_max_str_digits"
    using length_digits_le [OF pos, of "nat \<bar>i\<bar>"] by simp
  also have "\<dots> \<longleftrightarrow> \<bar>i\<bar> < 10 ^ int_max_str_digits"
    by (simp add: nat_less_iff)
  finally show ?thesis .
qed

lemma abs_le_abs_square: "\<bar>n\<bar> \<le> \<bar>n * n\<bar>" for n :: int
proof (cases "n = 0")
  case True
  then show ?thesis by simp
next
  case False
  then have "1 \<le> \<bar>n\<bar>" by simp
  then have "\<bar>n\<bar> * 1 \<le> \<bar>n\<bar> * \<bar>n\<bar>"
    by (intro mult_left_mono) simp_all
  then show ?thesis by (simp add: abs_mult)
qed

lemma respond_read_root:
  "respond (PDict read_root) =
     \<lparr>status = 200,
      content = Payload (JObj [(''message'', JStr ''Welcome to the FastAPI app!'')])\<rparr>"
  by (simp add: respond_def read_root_def)

lemma respond_read_item:
  "respond (PDict (read_item n q)) =
     (if \<bar>n * n\<bar> < 10 ^ int_max_str_digits
      then \<lparr>status = 200,
            content = Payload (JObj [(''item_id'', JInt n), (''square'', JInt (n * n))])\<rparr>
      else server_error)"
proof -
  have enc: "encode (PDict (read_item n q)) = JObj [(''item_id'', JInt n), (''square'', JInt (n * n))]"
    by (simp add: read_item_def power2_eq_square)
  have "renders (JObj [(''item_id'', JInt n), (''square'', JInt (n * n))])
        \<longleftrightarrow> renders (JInt n) \<and> renders (JInt (n * n))"
    by simp
  also have "\<dots> \<longleftrightarrow> \<bar>n * n\<bar> < 10 ^ int_max_str_digits"
    using abs_le_abs_square [of n] by (auto simp only: renders_int_iff)
  finally show ?thesis
    by (simp only: respond_def enc)
qed

lemma serve_GET_root: "serve fw st (GET_root query) = (st, respond (PDict read_root))"
  by (simp add: serve_def finish_def exec_read_root)

lemma serve_POST_items:
  "serve fw st (POST_items j) =
     (case validate_body (str_validator fw) (float_validator fw) j of
        Inl errs \<Rightarrow> (st, unprocessable errs)
      | Inr item \<Rightarrow> (st, respond (PDict (create_item item))))"
  by (simp add: serve_def finish_def exec_create_item split: sum.splits)

lemma serve_GET_items_id:
  "serve fw st (GET_items_id s q) =
     (case int_validator fw s of
        None \<Rightarrow> (st, unprocessable [Mistyped ''item_id''])
      | Some n \<Rightarrow> (st, respond (PDict (read_item n q))))"
  by (simp add: serve_def finish_def exec_read_item [where q = q] split: option.splits)

lemma serve_state: "fst (serve fw st req) = st"
  by (cases req)
     (simp_all add: serve_GET_root serve_POST_items serve_GET_items_id
        split: sum.splits option.splits)

lemma serve_reply_state: "snd (serve fw st req) = snd (serve fw st' req)"
  by (cases req)
     (simp_all add: serve_GET_root serve_POST_items serve_GET_items_id
        split: sum.splits option.splits)

lemma serve_all_state: "fst (serve_all fw st reqs) = st"
proof (induction reqs arbitrary: st)
  case Nil
  show ?case by simp
next
  case (Cons r rs)
  have "fst (serve fw st r) = st" by (rule serve_state)
  with Cons.IH [of st] show ?case
    by (simp add: split_beta)
qed

lemma status_respond: "status (respond v) \<noteq> 422"
  by (simp add: respond_def server_error_def)

lemma validate_Item_isl:
  "isl (validate_Item sv fv body) \<longleftrightarrow>
     body ''name'' = None \<or> (\<exists>j. body ''name'' = Some j \<and> sv j = None)
     \<or> (\<exists>j. body ''description'' = Some j \<and> j \<noteq> JNull \<and> sv j = None)
     \<or> body ''price'' = None \<or> (\<exists>j. body ''price'' = Some j \<and> fv j = None)"
  by (auto simp add: validate_Item_def required_field_def optional_field_def Let_def
      split: sum.splits option.splits if_splits)

lemma validate_body_isl:
  "isl (validate_body sv fv j) \<longleftrightarrow> isl (validate_Item sv fv (body_fields j))"
  by (cases j) (simp_all add: validate_body_def body_fields_def validate_Item_isl)

lemma serve_POST_status:
  "status (snd (serve fw st (POST_items j))) = 422 \<longleftrightarrow>
     isl (validate_Item (str_validator fw) (float_validator fw) (body_fields j))"
proof -
  have "status (snd (serve fw st (POST_items j))) = 422 \<longleftrightarrow>
        isl (validate_body (str_validator fw) (float_validator fw) j)"
    by (simp add: serve_POST_items unprocessable_def status_respond split: sum.splits)
  then show ?thesis by (simp only: validate_body_isl)
qed


lemma below_limit: "\<bar>i\<bar> < 10 ^ 4 \<Longrightarrow> \<bar>i\<bar> < 10 ^ int_max_str_digits" for i :: int
proof -
  assume small: "\<bar>i\<bar> < 10 ^ 4"
  have "(10::int) ^ 4 \<le> 10 ^ int_max_str_digits"
    by (rule power_increasing) (simp_all add: int_max_str_digits_def)
  with small show ?thesis by (rule less_le_trans)
qed

lemma square_above_limit:
  "int_max_str_digits \<le> 2 * k \<Longrightarrow> \<not> \<bar>(10::int) ^ k * 10 ^ k\<bar> < 10 ^ int_max_str_digits"
proof -
  assume "int_max_str_digits \<le> 2 * k"
  then have "(10::int) ^ int_max_str_digits \<le> 10 ^ (2 * k)"
    by (intro power_increasing) simp_all
  also have "(10::int) ^ (2 * k) = 10 ^ k * 10 ^ k"
    by (simp add: mult_2 power_add)
  finally have "(10::int) ^ int_max_str_digits \<le> \<bar>10 ^ k * 10 ^ k\<bar>"
    by simp
  then show ?thesis by simp
qed

lemma large_lookup:
  "int_max_str_digits \<le> 2 * k \<Longrightarrow>
     status (snd (serve plain st (GET_items_id (str_int (10 ^ k)) q))) = 500"
proof -
  assume "int_max_str_digits \<le> 2 * k"
  then have big: "\<not> \<bar>(10::int) ^ k * 10 ^ k\<bar> < 10 ^ int_max_str_digits"
    by (rule square_above_limit)
  have parse: "int_validator plain (str_int (10 ^ k)) = Some (10 ^ k)"
    by (simp add: plain_def decimal_int_str_int)
  show ?thesis
    using big by (simp add: serve_GET_items_id parse respond_read_item server_error_def)
qed

subsection \<open>Lookup by id\<close>



subsection \<open>Creation\<close>



subsection \<open>Validation of a creation request\<close>

text \<open>
  C3, as amended: a creation request fails with a validation error, status 422, exactly
  when \<open>name\<close> is missing or not coercible to text, \<open>description\<close> is present, not null and
  not coercible to text, or \<open>price\<close> is missing or not coercible to a number. A body with
  a name that is text, a numeric price and no description is accepted, with the
  description absent.
\<close>

theorem validate_Item_fails_iff:
  "(isl (validate_Item sv fv body) \<longleftrightarrow>
      body ''name'' = None \<or> (\<exists>j. body ''name'' = Some j \<and> sv j = None)
      \<or> (\<exists>j. body ''description'' = Some j \<and> j \<noteq> JNull \<and> sv j = None)
      \<or> body ''price'' = None \<or> (\<exists>j. body ''price'' = Some j \<and> fv j = None))
   \<and> (status (snd (serve fw st (POST_items b))) = 422 \<longleftrightarrow>
        isl (validate_Item (str_validator fw) (float_validator fw) (body_fields b)))
   \<and> (sv jn = Some n \<and> fv jp = Some p \<longrightarrow>
        validate_Item sv fv [''name'' \<mapsto> jn, ''price'' \<mapsto> jp]
          = Inr \<lparr>name = n, description = None, price = p\<rparr>)"
proof -
  have accepted: "sv jn = Some n \<and> fv jp = Some p \<longrightarrow>
        validate_Item sv fv [''name'' \<mapsto> jn, ''price'' \<mapsto> jp]
          = Inr \<lparr>name = n, description = None, price = p\<rparr>"
    by (simp add: validate_Item_def required_field_def optional_field_def)
  show ?thesis
    using validate_Item_isl [of sv fv body] serve_POST_status [of fw st b] accepted
    by simp
qed

theorem validate_Item_fails_iff_witness:
  "json_str (JStr ''pen'') = Some ''pen'' \<and> json_float (JFloat 2.5) = Some (Finite 2.5)
   \<and> validate_Item json_str json_float [''name'' \<mapsto> JStr ''pen'', ''price'' \<mapsto> JFloat 2.5]
       = Inr \<lparr>name = ''pen'', description = None, price = Finite 2.5\<rparr>
   \<and> isl (validate_Item json_str json_float [''name'' \<mapsto> JStr ''pen''])
   \<and> status (snd (serve plain Map.empty (POST_items (JObj [(''name'', JStr ''pen'')])))) = 422
   \<and> status (snd (serve plain Map.empty (POST_items (JArr [])))) = 422"
  using
    validate_Item_fails_iff
      [of json_str json_float "[''name'' \<mapsto> JStr ''pen'']" plain Map.empty
          "JObj [(''name'', JStr ''pen'')]" "JStr ''pen''" "''pen''" "JFloat 2.5" "Finite 2.5"]
    validate_Item_fails_iff
      [of json_str json_float "[''name'' \<mapsto> JStr ''pen'']" plain Map.empty
          "JArr []" "JStr ''pen''" "''pen''" "JFloat 2.5" "Finite 2.5"]
  by (simp add: plain_def body_fields_def validate_Item_def required_field_def
      optional_field_def errors_def)

text \<open>
  The claim as first stated lists a missing name and a missing or non-numeric price as
  the only causes. A body whose name is text and whose price is the number 1, but whose
  description is a list, is refused all the same: \<open>Optional[str]\<close> admits text and null.
\<close>

theorem validation_counterexample:
  "status (snd (serve plain Map.empty
      (POST_items (JObj [(''name'', JStr ''pen''), (''description'', JArr []),
                         (''price'', JInt 1)])))) = 422
   \<and> body_fields (JObj [(''name'', JStr ''pen''), (''description'', JArr []),
                        (''price'', JInt 1)]) ''name'' = Some (JStr ''pen'')
   \<and> body_fields (JObj [(''name'', JStr ''pen''), (''description'', JArr []),
                        (''price'', JInt 1)]) ''price'' = Some (JInt 1)
   \<and> json_float (JInt 1) = Some (Finite 1)"
  by (simp add: serve_POST_items validate_body_def validate_Item_def required_field_def
      optional_field_def errors_def plain_def unprocessable_def body_fields_def)

subsection \<open>Validation of a lookup request\<close>

text \<open>
  C4, as amended: a lookup request fails with a validation error, status 422, exactly
  when its path segment is not integer-parseable; "abc" is not, and the decimal form of
  every integer is. A request with an integer-parseable segment is never refused by
  validation: its handler runs, and the reply is 200 with the id and its square exactly
  when the square has at most 4300 decimal digits; beyond that the reply cannot be
  written and the server fails with 500.
\<close>

theorem read_item_route_fails_iff:
  "(status (snd (serve plain st (GET_items_id s q))) = 422 \<longleftrightarrow> decimal_int s = None)
   \<and> (decimal_int s = Some n \<longrightarrow>
        serve plain st (GET_items_id s q) =
          (st, if \<bar>n * n\<bar> < 10 ^ int_max_str_digits
               then \<lparr>status = 200,
                     content = Payload (JObj [(''item_id'', JInt n), (''square'', JInt (n * n))])\<rparr>
               else server_error))
   \<and> decimal_int (str_int m) = Some m
   \<and> decimal_int ''abc'' = None"
proof -
  have "status (snd (serve plain st (GET_items_id s q))) = 422 \<longleftrightarrow> decimal_int s = None"
    by (cases "decimal_int s")
       (simp_all add: serve_GET_items_id plain_def unprocessable_def status_respond)
  moreover have "decimal_int s = Some n \<longrightarrow>
        serve plain st (GET_items_id s q) =
          (st, if \<bar>n * n\<bar> < 10 ^ int_max_str_digits
               then \<lparr>status = 200,
                     content = Payload (JObj [(''item_id'', JInt n), (''square'', JInt (n * n))])\<rparr>
               else server_error)"
    by (simp add: serve_GET_items_id plain_def respond_read_item)
  moreover have "decimal_int ''abc'' = None"
    by (simp add: decimal_int_def digit_of_def)
  ultimately show ?thesis
    using decimal_int_str_int [of m] by blast
qed

theorem read_item_route_fails_iff_witness:
  "decimal_int ''12'' = Some 12
   \<and> serve plain Map.empty (GET_items_id ''12'' (Some ''x'')) =
       (Map.empty,
        \<lparr>status = 200,
         content = Payload (JObj [(''item_id'', JInt 12), (''square'', JInt 144)])\<rparr>)
   \<and> status (snd (serve plain Map.empty (GET_items_id ''abc'' None))) = 422"
proof -
  have parse: "decimal_int ''12'' = Some 12"
    by (simp add: decimal_int_def digit_of_def)
  have small: "\<bar>12 * 12 :: int\<bar> < 10 ^ int_max_str_digits"
    by (rule below_limit) simp
  show ?thesis
    using read_item_route_fails_iff [of Map.empty "''12''" "Some ''x''" 12]
      read_item_route_fails_iff [of Map.empty "''abc''" None]
      parse small
    by simp
qed

text \<open>
  As first stated, the claim ends "for every integer-parseable id it does not fail". The
  numeral 1 followed by 2150 zeros is integer-parseable and the request for it is not
  refused, but its square has 4301 digits and the reply cannot be written.
\<close>

theorem lookup_counterexample:
  "decimal_int (str_int (10 ^ 2150)) = Some (10 ^ 2150)
   \<and> status (snd (serve plain Map.empty (GET_items_id (str_int (10 ^ 2150)) None))) = 500"
proof (rule conjI)
  show "decimal_int (str_int (10 ^ 2150)) = Some (10 ^ 2150)"
    by (rule decimal_int_str_int)
  show "status (snd (serve plain Map.empty (GET_items_id (str_int (10 ^ 2150)) None))) = 500"
    by (rule large_lookup) (simp add: int_max_str_digits_def)
qed

subsection \<open>Purity\<close>

text \<open>
  C5: the reply to a request is a function of the request alone: it is the same in any
  two states of the process, and the same whatever requests were served before. In
  particular \<open>read_item\<close>, and the reply of its route, are the same for any two values of
  the optional \<open>q\<close>.
\<close>

theorem handlers_deterministic:
  "snd (serve fw st req) = snd (serve fw st' req)
   \<and> snd (serve fw (fst (serve_all fw st earlier)) req) = snd (serve fw st req)
   \<and> read_item n q = read_item n q'
   \<and> serve fw st (GET_items_id s q) = serve fw st (GET_items_id s q')"
proof -
  have "snd (serve fw st req) = snd (serve fw st' req)"
    by (rule serve_reply_state)
  moreover have "snd (serve fw (fst (serve_all fw st earlier)) req) = snd (serve fw st req)"
    by (rule serve_reply_state)
  moreover have "read_item n q = read_item n q'"
    by (simp add: read_item_def)
  moreover have "serve fw st (GET_items_id s q) = serve fw st (GET_items_id s q')"
    by (simp add: serve_GET_items_id read_item_def split: option.splits)
  ultimately show ?thesis by blast
qed

text \<open>
  C6: the body of \<open>create_item\<close> is a single \<open>return\<close>; run for any validated item in any
  globals, it returns its dictionary and leaves every global as it was, for it has no
  assignment to one (whatever its locals are). So a creation request, valid or not,
  leaves the state of the process as it found it, as does any sequence of creation
  requests, and a lookup served after a creation is answered as it would have been
  without it.
\<close>

theorem create_item_no_effect:
  "exec create_item_body g [''item'' \<mapsto> PItem item] = (Inr (PDict (create_item item)), g)
   \<and> list_all (\<lambda>s. \<not> assigns_global s) create_item_body
   \<and> snd (exec create_item_body g l) = g
   \<and> fst (serve fw g (POST_items b)) = g
   \<and> serve fw (fst (serve fw g (POST_items b))) (GET_items_id s q)
       = serve fw g (GET_items_id s q)
   \<and> fst (serve_all fw g (map POST_items bs)) = g"
proof -
  have pure: "list_all (\<lambda>s. \<not> assigns_global s) create_item_body"
    by (simp add: create_item_body_def assigns_global_def)
  then have "snd (exec create_item_body g l) = g"
    by (rule exec_frame)
  moreover note pure
  moreover have post: "fst (serve fw g (POST_items b)) = g"
    by (rule serve_state)
  moreover have "fst (serve_all fw g (map POST_items bs)) = g"
    by (rule serve_all_state)
  ultimately show ?thesis
    using exec_create_item [of g item] by simp
qed

theorem create_item_no_effect_witness:
  "serve_all plain [''seen'' \<mapsto> PInt 0]
      [POST_items (JObj [(''name'', JStr ''pen''), (''price'', JInt 1)]),
       GET_items_id ''4'' None]
    = ([''seen'' \<mapsto> PInt 0],
       [respond (PDict (create_item \<lparr>name = ''pen'', description = None, price = Finite 1\<rparr>)),
        respond (PDict (read_item 4 None))])"
proof -
  have post: "serve plain [''seen'' \<mapsto> PInt 0]
      (POST_items (JObj [(''name'', JStr ''pen''), (''price'', JInt 1)]))
     = ([''seen'' \<mapsto> PInt 0],
        respond (PDict (create_item \<lparr>name = ''pen'', description = None, price = Finite 1\<rparr>)))"
    by (simp add: serve_POST_items validate_body_def validate_Item_def required_field_def
        optional_field_def plain_def body_fields_def)
  have get: "serve plain [''seen'' \<mapsto> PInt 0] (GET_items_id ''4'' None)
     = ([''seen'' \<mapsto> PInt 0], respond (PDict (read_item 4 None)))"
    by (simp add: serve_GET_items_id plain_def decimal_int_def digit_of_def)
  show ?thesis
    using create_item_no_effect
      [of "[''seen'' \<mapsto> PInt 0]" "\<lparr>name = ''pen'', description = None, price = Finite 1\<rparr>"
          Map.empty plain "JObj [(''name'', JStr ''pen''), (''price'', JInt 1)]" "''4''" None]
      post get
    by simp
qed

subsection \<open>The root route\<close>

text \<open>
  C8: \<open>read_root\<close> takes no input and is the fixed greeting; its route answers 200 with
  that greeting for every query string, in every state, and has no other reply.
\<close>

theorem read_root_fixed:
  "read_root = [(''message'', PStr ''Welcome to the FastAPI app!'')]
   \<and> serve fw st (GET_root query) =
       (st, \<lparr>status = 200,
             content = Payload (JObj [(''message'', JStr ''Welcome to the FastAPI app!'')])\<rparr>)"
  using respond_read_root by (simp add: serve_GET_root read_root_def)

section \<open>Properties of the client\<close>

subsection \<open>Auxiliary facts\<close>

lemma create_shown_failure:
  "status_code r \<noteq> 200 \<Longrightarrow> create_shown r = ([St_error ''Failed to create the item.''], None)"
  by (simp add: create_shown_def)

lemma lookup_shown_failure:
  "status_code r \<noteq> 200 \<Longrightarrow>
     lookup_shown fmt r = ([St_error ''Failed to fetch item details.''], None)"
  by (simp add: lookup_shown_def)

lemma create_shown_200:
  "status_code r = 200 \<Longrightarrow> create_shown r \<noteq> ([St_error msg], None)"
  by (simp add: create_shown_def split: sum.splits)

lemma lookup_shown_200:
  "status_code r = 200 \<Longrightarrow> lookup_shown fmt r \<noteq> ([St_error msg], None)"
  by (simp add: lookup_shown_def split: sum.splits)

lemma script_posts_submitted:
  "script net fmt inp =
     script
       (net\<lparr>http_post := \<lambda>url payload.
               if url = ''http://127.0.0.1:8000/items/'' \<and> payload = submitted inp
               then http_post net url payload else Inl ConnectionError\<rparr>)
       fmt inp"
  by (simp add: script_def Let_def cong: option.case_cong)

subsection \<open>Failure messages\<close>

text \<open>
  C7: whenever the response carries a status outside the success class, whatever its
  body and whatever the cause, the creation block shows exactly the one message
  "Failed to create the item." and the lookup block exactly "Failed to fetch item
  details."; a run of the script in which one button was pressed then shows the title
  and that message, and ends without an exception.
\<close>

theorem failure_message_shown:
  assumes "\<not> success_status (status_code r)"
  shows "create_shown r = ([St_error ''Failed to create the item.''], None)
    \<and> lookup_shown fmt r = ([St_error ''Failed to fetch item details.''], None)
    \<and> (create_pressed inp \<and> \<not> lookup_pressed inp
         \<and> http_post net ''http://127.0.0.1:8000/items/'' (submitted inp) = Inr r
       \<longrightarrow> script net fmt inp =
             ([St_title ''FastAPI + Streamlit Example'',
               St_error ''Failed to create the item.''], None))
    \<and> (\<not> create_pressed inp \<and> lookup_pressed inp
         \<and> http_get net
              (''http://127.0.0.1:8000/items/'' @ str_int (number_input 1 (typed_id inp)))
            = Inr r
       \<longrightarrow> script net fmt inp =
             ([St_title ''FastAPI + Streamlit Example'',
               St_error ''Failed to fetch item details.''], None))"
proof -
  from assms have ne: "status_code r \<noteq> 200"
    by (auto simp add: success_status_def)
  note c = create_shown_failure [OF ne] and l = lookup_shown_failure [OF ne, of fmt]
  show ?thesis
    by (simp add: c l script_def Let_def)
qed

theorem failure_message_shown_witness:
  "\<not> success_status 422
   \<and> create_shown \<lparr>status_code = 422, json_result = Inr (JObj [(''detail'', JArr [])])\<rparr>
       = ([St_error ''Failed to create the item.''], None)
   \<and> script (canned \<lparr>status_code = 422, json_result = Inr (JObj [(''detail'', JArr [])])\<rparr>)
        (\<lambda>j. '''')
        \<lparr>typed_name = ''pen'', typed_description = '''', typed_price = 1,
          create_pressed = True, typed_id = 1, lookup_pressed = False\<rparr>
       = ([St_title ''FastAPI + Streamlit Example'',
           St_error ''Failed to create the item.''], None)
   \<and> script (canned \<lparr>status_code = 500, json_result = Inl JSONDecodeError\<rparr>)
        (\<lambda>j. '''')
        \<lparr>typed_name = '''', typed_description = '''', typed_price = 0,
          create_pressed = False, typed_id = 7, lookup_pressed = True\<rparr>
       = ([St_title ''FastAPI + Streamlit Example'',
           St_error ''Failed to fetch item details.''], None)"
  using
    failure_message_shown
      [of "\<lparr>status_code = 422, json_result = Inr (JObj [(''detail'', JArr [])])\<rparr>"
          "\<lambda>j. ''''"
          "\<lparr>typed_name = ''pen'', typed_description = '''', typed_price = 1,
            create_pressed = True, typed_id = 1, lookup_pressed = False\<rparr>"
          "canned \<lparr>status_code = 422, json_result = Inr (JObj [(''detail'', JArr [])])\<rparr>"]
    failure_message_shown
      [of "\<lparr>status_code = 500, json_result = Inl JSONDecodeError\<rparr>"
          "\<lambda>j. ''''"
          "\<lparr>typed_name = '''', typed_description = '''', typed_price = 0,
            create_pressed = False, typed_id = 7, lookup_pressed = True\<rparr>"
          "canned \<lparr>status_code = 500, json_result = Inl JSONDecodeError\<rparr>"]
  by (simp add: success_status_def canned_def)

text \<open>
  C9: the test for success is equality with 200. Each block shows its failure message
  exactly when the status code differs from 200, so also for 201 and 204, and never
  when it is 200.
\<close>

theorem success_test_is_200:
  "(create_shown r = ([St_error ''Failed to create the item.''], None)
      \<longleftrightarrow> status_code r \<noteq> 200)
   \<and> (lookup_shown fmt r = ([St_error ''Failed to fetch item details.''], None)
      \<longleftrightarrow> status_code r \<noteq> 200)"
  using create_shown_failure [of r] lookup_shown_failure [of r fmt]
    create_shown_200 [of r] lookup_shown_200 [of r fmt]
  by blast

theorem success_test_is_200_witness:
  "create_shown \<lparr>status_code = 201, json_result = Inr (JObj [(''message'', JStr ''made'')])\<rparr>
     = ([St_error ''Failed to create the item.''], None)
   \<and> lookup_shown (\<lambda>j. '''') \<lparr>status_code = 204, json_result = Inl JSONDecodeError\<rparr>
     = ([St_error ''Failed to fetch item details.''], None)
   \<and> create_shown \<lparr>status_code = 200, json_result = Inr (JObj [(''message'', JStr ''made'')])\<rparr>
     = ([St_success (JStr ''made'')], None)"
  using
    success_test_is_200
      [of "\<lparr>status_code = 201, json_result = Inr (JObj [(''message'', JStr ''made'')])\<rparr>"]
    success_test_is_200
      [of "\<lparr>status_code = 204, json_result = Inl JSONDecodeError\<rparr>" "\<lambda>j. ''''"]
  by (simp add: create_shown_def subscript_def)

subsection \<open>The payload of a submission\<close>

text \<open>
  C10: the payload of every submission has the three keys \<open>name\<close>, \<open>description\<close> and
  \<open>price\<close>. The description is sent as text, empty perhaps, never left out and never null,
  so validation never takes the default for it; the price sent is the widget's and is
  not negative. It is the only payload the script posts, and it posts it to the one
  address: the run depends on the network's answer to nothing else.
\<close>

theorem submitted_payload:
  "map fst (submitted inp) = [''name'', ''description'', ''price'']
   \<and> map_of (submitted inp) ''name'' = Some (JStr (typed_name inp))
   \<and> map_of (submitted inp) ''description'' = Some (JStr (typed_description inp))
   \<and> map_of (submitted inp) ''price'' = Some (JFloat (number_input 0 (typed_price inp)))
   \<and> 0 \<le> number_input 0 (typed_price inp)
   \<and> optional_field sv (map_of (submitted inp)) ''description'' \<noteq> Inr None
   \<and> script net fmt inp =
       script
         (net\<lparr>http_post := \<lambda>url payload.
                 if url = ''http://127.0.0.1:8000/items/'' \<and> payload = submitted inp
                 then http_post net url payload else Inl ConnectionError\<rparr>)
         fmt inp"
proof -
  have "optional_field sv (map_of (submitted inp)) ''description'' \<noteq> Inr None"
    by (simp add: submitted_def item_data_def optional_field_def split: option.splits)
  moreover have "(0::real) \<le> number_input 0 (typed_price inp)"
    by (simp add: number_input_def)
  ultimately show ?thesis
    using script_posts_submitted [of net fmt inp]
    by (simp add: submitted_def item_data_def)
qed

theorem submitted_payload_witness:
  "submitted \<lparr>typed_name = ''pen'', typed_description = '''', typed_price = - 3,
              create_pressed = True, typed_id = 1, lookup_pressed = False\<rparr>
     = [(''name'', JStr ''pen''), (''description'', JStr ''''), (''price'', JFloat 0)]
   \<and> validate_Item json_str json_float
        (map_of (submitted \<lparr>typed_name = ''pen'', typed_description = '''', typed_price = 2.5,
              create_pressed = True, typed_id = 1, lookup_pressed = False\<rparr>))
     = Inr \<lparr>name = ''pen'', description = Some '''', price = Finite 2.5\<rparr>"
  using submitted_payload
    [of "\<lparr>typed_name = ''pen'', typed_description = '''', typed_price = - 3,
              create_pressed = True, typed_id = 1, lookup_pressed = False\<rparr>" json_str]
  by (simp add: submitted_def item_data_def number_input_def validate_Item_def
      required_field_def optional_field_def)

end
